theory Spec2Isabelle
  imports Main "HOL-Library.Sublist" "HOL-Library.Word"
begin

section \<open>The tokenizer library and the JavaScript primitives the code calls\<close>

text \<open>
  Both \<^verbatim>\<open>TokenCounter\<close> (src/utils/tokenization.ts) and \<^verbatim>\<open>BaseToolHandler\<close> (the
  module that follows it in the same source file, imported by the property handlers as
  \<^verbatim>\<open>./tools.js\<close>) hold a tokenizer obtained from \<^verbatim>\<open>encoding_for_model("gpt-4")\<close> of the
  third-party package tiktoken. The package is not part of the repository, so the two
  operations the code calls on it are parameters of the model.
  \<^item> \<open>encode\<close> maps a text to its token sequence, for a call that returns. The library's
    \<^verbatim>\<open>encode\<close> can also throw (called as the source calls it, it rejects a text that
    contains a special token such as \<^verbatim>\<open><|endoftext|>\<close>); where a caller of the code
    observes this, in \<^verbatim>\<open>createResponse\<close> and \<^verbatim>\<open>runTool\<close>, the texts on which it throws are
    a further parameter.
  \<^item> \<open>decode\<close> maps a token sequence to the string that enters the concatenation
    \<^verbatim>\<open>truncatedText + TRUNCATION_MESSAGE\<close>. The library returns the bytes of the text, a
    \<^verbatim>\<open>Uint8Array\<close>, and \<^verbatim>\<open>+\<close> converts such an array to the decimal values of its bytes
    separated by commas; \<open>decode\<close> stands for the library call followed by that
    conversion.

  They stand for the operations of a tokenizer that has not been freed; what the package
  does on a freed tokenizer is not modelled. A JavaScript string is modelled as a
  \<open>string\<close>; \<^verbatim>\<open>+\<close> on strings is \<open>@\<close>.
\<close>

type_synonym token = nat

record tiktoken =
  encode :: "string \<Rightarrow> token list"
  decode :: "token list \<Rightarrow> string"

text \<open>
  \<^verbatim>\<open>Array.prototype.slice(start, end)\<close> (and the typed-array method of the same name):
  a negative index counts from the end of the array, and every index is clamped to
  \<open>0 .. length\<close>.
\<close>

definition relative_index :: "int \<Rightarrow> int \<Rightarrow> int" where
  "relative_index len i = (if i < 0 then max (len + i) 0 else min i len)"

definition js_slice :: "'a list \<Rightarrow> int \<Rightarrow> int \<Rightarrow> 'a list" where
  "js_slice xs start stop =
     (let len = int (length xs);
          k = relative_index len start;
          final = relative_index len stop
      in take (nat (max (final - k) 0)) (drop (nat k) xs))"

text \<open>
  \<^verbatim>\<open>MAX_TOKENS = parseInt(process.env.MAX_TOKENS ?? '20000')\<close> is read from the
  environment when the module is loaded; it is a parameter \<open>MAX_TOKENS :: int\<close> of every
  function that uses it. \<^verbatim>\<open>TRUNCATION_MESSAGE\<close> is the literal of the source: two
  newlines and the bracketed notice.
\<close>

definition TRUNCATION_MESSAGE :: string where
  "TRUNCATION_MESSAGE = [CHR 0x0A, CHR 0x0A] @ ''[Response truncated due to length]''"

section \<open>TokenCounter: counting and truncation\<close>

definition TokenCounter_countTokens :: "tiktoken \<Rightarrow> string \<Rightarrow> int" where
  "TokenCounter_countTokens tokenizer txt = int (length (encode tokenizer txt))"

text \<open>
  \<^verbatim>\<open>truncateToTokenLimit(text, limit = MAX_TOKENS)\<close>: the optional argument is an
  \<open>int option\<close>, \<open>None\<close> for a call that leaves it out.
\<close>

definition TokenCounter_truncateToTokenLimit ::
  "tiktoken \<Rightarrow> int \<Rightarrow> string \<Rightarrow> int option \<Rightarrow> string" where
  "TokenCounter_truncateToTokenLimit tokenizer MAX_TOKENS txt limit_arg =
     (let limit = (case limit_arg of None \<Rightarrow> MAX_TOKENS | Some l \<Rightarrow> l);
          tokens = encode tokenizer txt
      in if int (length tokens) \<le> limit then txt
         else
           let messageTokens = encode tokenizer TRUNCATION_MESSAGE;
               availableTokens = limit - int (length messageTokens);
               truncatedText = decode tokenizer (js_slice tokens 0 availableTokens)
           in truncatedText @ TRUNCATION_MESSAGE)"

section \<open>BaseToolHandler: the inline copy of counting and truncation\<close>

definition BaseToolHandler_countTokens :: "tiktoken \<Rightarrow> string \<Rightarrow> int" where
  "BaseToolHandler_countTokens tokenizer txt = int (length (encode tokenizer txt))"

definition BaseToolHandler_truncateToTokenLimit ::
  "tiktoken \<Rightarrow> int \<Rightarrow> string \<Rightarrow> string" where
  "BaseToolHandler_truncateToTokenLimit tokenizer MAX_TOKENS txt =
     (let tokens = encode tokenizer txt
      in if int (length tokens) \<le> MAX_TOKENS then txt
         else
           let messageTokens = encode tokenizer TRUNCATION_MESSAGE;
               availableTokens = MAX_TOKENS - int (length messageTokens);
               truncatedText = decode tokenizer (js_slice tokens 0 availableTokens)
           in truncatedText @ TRUNCATION_MESSAGE)"

section \<open>Concrete tokenizers for evaluating the definitions\<close>

text \<open>
  The simplest tokenizer there is: one token per character, the token being the
  character's code.
\<close>

definition char_tokenizer :: tiktoken where
  "char_tokenizer = \<lparr>encode = map of_char, decode = map char_of\<rparr>"

text \<open>
  The behaviour of the gpt-4 encoding on one text and on what the code makes of it. The
  text \<^verbatim>\<open>a b c d e f g h i j k l\<close> has twelve tokens (\<^verbatim>\<open>a\<close>, then each further letter with
  the space before it) and the truncation marker has eight. The first two tokens decode to the
  bytes 97, 32, 98 of \<^verbatim>\<open>a b\<close> and the first nine to the seventeen bytes of
  \<^verbatim>\<open>a b c d e f g h i\<close>; in the string that enters the concatenation each byte is a
  decimal number. Encoded again, every number and every comma of such a string is a
  token. Tokens are numbered here in an arbitrary way (the letters \<open>100\<close> to \<open>111\<close>,
  the tokens of the marker \<open>120\<close> to \<open>127\<close>, the comma \<open>44\<close>, the number \<open>n\<close> as
  \<open>1000 + n\<close>); only the splitting matters below. On other arguments the instance returns
  the empty sequence.
\<close>

definition sample_text :: string where
  "sample_text = ''a b c d e f g h i j k l''"

definition bytes_of_2_tokens :: string where
  "bytes_of_2_tokens = ''97,32,98''"

definition bytes_of_9_tokens :: string where
  "bytes_of_9_tokens = ''97,32,98,32,99,32,100,32,101,32,102,32,103,32,104,32,105''"

definition marker_tokens :: "token list" where
  "marker_tokens = [120, 121, 122, 123, 124, 125, 126, 127]"

definition gpt4_sample :: tiktoken where
  "gpt4_sample =
     \<lparr>encode =
        (\<lambda>s. if s = sample_text then [100, 101, 102, 103, 104, 105, 106, 107, 108, 109, 110, 111]
             else if s = TRUNCATION_MESSAGE then marker_tokens
             else if s = bytes_of_2_tokens @ TRUNCATION_MESSAGE
               then [1097, 44, 1032, 44, 1098] @ marker_tokens
             else if s = bytes_of_9_tokens @ TRUNCATION_MESSAGE
               then [1097, 44, 1032, 44, 1098, 44, 1032, 44, 1099, 44, 1032, 44, 1100, 44,
                     1032, 44, 1101, 44, 1032, 44, 1102, 44, 1032, 44, 1103, 44, 1032, 44,
                     1104, 44, 1032, 44, 1105] @ marker_tokens
             else []),
      decode =
        (\<lambda>ts. if ts = [100, 101] then bytes_of_2_tokens
              else if ts = [100, 101, 102, 103, 104, 105, 106, 107, 108] then bytes_of_9_tokens
              else [])\<rparr>"

section \<open>BaseToolHandler: building the response\<close>

text \<open>
  \<^verbatim>\<open>createResponse(content: unknown)\<close> inspects its argument with \<^verbatim>\<open>typeof\<close>,
  \<^verbatim>\<open>instanceof\<close> and \<^verbatim>\<open>Array.isArray\<close>. The values it can be given are a datatype with
  one constructor for each class the code tells apart; \<open>JError\<close> carries the
  \<^verbatim>\<open>message\<close> and the optional \<^verbatim>\<open>stack\<close> of an \<^verbatim>\<open>Error\<close>, \<open>JNumber\<close> an integer-valued
  number.
\<close>

type_synonym byte = "8 word"

datatype jsvalue =
    JUndefined
  | JNull
  | JBool bool
  | JNumber int
  | JString (the_string: string)
  | JBuffer (the_bytes: "byte list")
  | JArray (the_items: "jsvalue list")
  | JError (err_message: string) (err_stack: "string option")
  | JObject "(string \<times> jsvalue) list"

text \<open>
  The built-in conversions that \<^verbatim>\<open>createResponse\<close> calls are parameters:
  \<^verbatim>\<open>content.toString('utf-8')\<close> on a \<^verbatim>\<open>Buffer\<close>, \<^verbatim>\<open>JSON.stringify(content, null, 2)\<close>
  (\<open>None\<close> when it throws) and \<^verbatim>\<open>String(content)\<close>. The source assigns the result of
  \<^verbatim>\<open>JSON.stringify\<close> to a variable declared \<^verbatim>\<open>string\<close>, as the TypeScript library types
  it, and the model follows that type; for \<^verbatim>\<open>undefined\<close> the JavaScript built-in returns
  \<^verbatim>\<open>undefined\<close> instead of a string, a case the model does not describe.
\<close>

record runtime =
  toString_utf8 :: "byte list \<Rightarrow> string"
  JSON_stringify :: "jsvalue \<Rightarrow> string option"
  String_conv :: "jsvalue \<Rightarrow> string"

fun typeof_string :: "jsvalue \<Rightarrow> bool" where
  "typeof_string (JString s) = True"
| "typeof_string v = False"

fun instanceof_Buffer :: "jsvalue \<Rightarrow> bool" where
  "instanceof_Buffer (JBuffer b) = True"
| "instanceof_Buffer v = False"

fun Array_isArray :: "jsvalue \<Rightarrow> bool" where
  "Array_isArray (JArray items) = True"
| "Array_isArray v = False"

fun instanceof_Error :: "jsvalue \<Rightarrow> bool" where
  "instanceof_Error (JError msg stack) = True"
| "instanceof_Error v = False"

text \<open>
  \<^verbatim>\<open>Array.prototype.join(separator)\<close>: a string element contributes itself,
  \<^verbatim>\<open>null\<close> and \<^verbatim>\<open>undefined\<close> the empty string, any other element its string conversion.
\<close>

fun join_item :: "runtime \<Rightarrow> jsvalue \<Rightarrow> string" where
  "join_item rt (JString s) = s"
| "join_item rt JNull = []"
| "join_item rt JUndefined = []"
| "join_item rt v = String_conv rt v"

fun js_join :: "runtime \<Rightarrow> jsvalue list \<Rightarrow> string \<Rightarrow> string" where
  "js_join rt [] separator = []"
| "js_join rt [v] separator = join_item rt v"
| "js_join rt (v # w # ws) separator = join_item rt v @ separator @ js_join rt (w # ws) separator"

text \<open>
  The first half of \<^verbatim>\<open>createResponse\<close>: the chain of \<^verbatim>\<open>if\<close>/\<^verbatim>\<open>else if\<close> that assigns
  the variable \<^verbatim>\<open>text\<close>, in the order of the source. \<^verbatim>\<open>content.stack || ''\<close> is the
  stack when there is a non-empty one and the empty string otherwise.
\<close>

definition createResponse_text :: "runtime \<Rightarrow> jsvalue \<Rightarrow> string" where
  "createResponse_text rt content =
     (if typeof_string content then
        the_string content
      else if instanceof_Buffer content then
        toString_utf8 rt (the_bytes content)
      else if Array_isArray content \<and> list_all typeof_string (the_items content) then
        js_join rt (the_items content) [CHR 0x0A]
      else if instanceof_Error content then
        ''Error: '' @ err_message content @ [CHR 0x0A] @
          (case err_stack content of None \<Rightarrow> [] | Some st \<Rightarrow> st)
      else
        (case JSON_stringify rt content of
           Some json \<Rightarrow> json
         | None \<Rightarrow> String_conv rt content))"

text \<open>
  The content unit of the protocol, \<^verbatim>\<open>{ type: "text", text: ... }\<close> (the field \<open>text'\<close>
  is its property \<^verbatim>\<open>text\<close>), and the entry that \<^verbatim>\<open>console.debug\<close> receives when the response
  was truncated: the handler's name, the token count of the text and the token count of
  what is sent.
\<close>

record TextContent =
  type :: string
  text' :: string

datatype debug_entry = Response_truncated string int int

text \<open>
  \<^verbatim>\<open>ObsidianError\<close> is declared in types.ts, which is not among the sources; the code
  here constructs it with a message, a numeric code and a details object, and these are
  the three fields of the record. A value that is thrown and caught is either an instance
  of \<^verbatim>\<open>ObsidianError\<close> (\<open>Typed\<close>) or any other value (\<open>Untyped\<close>), among them the plain
  \<^verbatim>\<open>Error\<close> instances \<open>JError\<close>.
\<close>

record ObsidianError =
  message :: string
  errorCode :: int
  details :: jsvalue

text \<open>
  \<^verbatim>\<open>createResponse\<close> calls \<^verbatim>\<open>this.tokenizer.encode\<close> three times or four: in
  \<^verbatim>\<open>countTokens(text)\<close>, in \<^verbatim>\<open>truncateToTokenLimit(text)\<close> (on the text and, when the text
  is over the budget, on the marker) and in \<^verbatim>\<open>countTokens(truncatedText)\<close>. Each call
  can throw. \<open>encode_throws\<close> gives, for a text, the value that the library's \<^verbatim>\<open>encode\<close>
  throws on it, and \<open>None\<close> when the call returns; the two functions below are
  \<^verbatim>\<open>countTokens\<close> and \<^verbatim>\<open>truncateToTokenLimit\<close> of the base handler with this outcome
  made explicit, the exception on the left of the sum.
\<close>

datatype thrown = Typed ObsidianError | Untyped jsvalue

definition try_countTokens ::
  "(string \<Rightarrow> jsvalue option) \<Rightarrow> tiktoken \<Rightarrow> string \<Rightarrow> thrown + int" where
  "try_countTokens encode_throws tokenizer txt =
     (case encode_throws txt of
        Some e \<Rightarrow> Inl (Untyped e)
      | None \<Rightarrow> Inr (BaseToolHandler_countTokens tokenizer txt))"

definition try_truncateToTokenLimit ::
  "(string \<Rightarrow> jsvalue option) \<Rightarrow> tiktoken \<Rightarrow> int \<Rightarrow> string \<Rightarrow> thrown + string" where
  "try_truncateToTokenLimit encode_throws tokenizer MAX_TOKENS txt =
     (case encode_throws txt of
        Some e \<Rightarrow> Inl (Untyped e)
      | None \<Rightarrow>
          if int (length (encode tokenizer txt)) \<le> MAX_TOKENS then Inr txt
          else
            (case encode_throws TRUNCATION_MESSAGE of
               Some e \<Rightarrow> Inl (Untyped e)
             | None \<Rightarrow> Inr (BaseToolHandler_truncateToTokenLimit tokenizer MAX_TOKENS txt)))"

text \<open>
  \<^verbatim>\<open>createResponse\<close> as a whole. \<^verbatim>\<open>this.name\<close> and \<^verbatim>\<open>this.tokenizer\<close> are arguments. The
  function either throws or returns; when it returns, the result pairs what was written
  to the console with the value returned.
\<close>

definition createResponse ::
  "runtime \<Rightarrow> tiktoken \<Rightarrow> (string \<Rightarrow> jsvalue option) \<Rightarrow> int \<Rightarrow> string \<Rightarrow> jsvalue
     \<Rightarrow> thrown + debug_entry list \<times> TextContent list" where
  "createResponse rt tokenizer encode_throws MAX_TOKENS name content =
     (let txt = createResponse_text rt content
      in case try_countTokens encode_throws tokenizer txt of
           Inl e \<Rightarrow> Inl e
         | Inr originalTokenCount \<Rightarrow>
             (case try_truncateToTokenLimit encode_throws tokenizer MAX_TOKENS txt of
                Inl e \<Rightarrow> Inl e
              | Inr truncatedText \<Rightarrow>
                  (case try_countTokens encode_throws tokenizer truncatedText of
                     Inl e \<Rightarrow> Inl e
                   | Inr finalTokenCount \<Rightarrow>
                       let console =
                             (if originalTokenCount > MAX_TOKENS
                              then [Response_truncated name originalTokenCount finalTokenCount]
                              else [])
                       in Inr (console, [\<lparr>type = ''text'', text' = truncatedText\<rparr>]))))"

section \<open>BaseToolHandler: error handling\<close>

text \<open>
  \<^verbatim>\<open>handleError(error: unknown): never\<close> throws on every path, so the model returns the
  thrown error on the left of a sum whose right side is never used. The details of the
  wrapped error are the object literals of the source: \<^verbatim>\<open>{ originalError: error.stack }\<close>,
  where the stack of an \<^verbatim>\<open>Error\<close> is a string or \<^verbatim>\<open>undefined\<close>, and \<^verbatim>\<open>{ error }\<close>.
\<close>

fun handleError :: "string \<Rightarrow> thrown \<Rightarrow> ObsidianError + 'a" where
  "handleError name (Typed e) = Inl e"
| "handleError name (Untyped (JError msg stack)) =
     Inl \<lparr>message = ''Tool '' @ [CHR 0x27] @ name @ [CHR 0x27] @ '' execution failed: '' @ msg,
          errorCode = 500,
          details = JObject [(''originalError'',
                              (case stack of None \<Rightarrow> JUndefined | Some st \<Rightarrow> JString st))]\<rparr>"
| "handleError name (Untyped v) =
     Inl \<lparr>message = ''Tool '' @ [CHR 0x27] @ name @ [CHR 0x27] @ '' execution failed with unknown error'',
          errorCode = 500,
          details = JObject [(''error'', v)]\<rparr>"

text \<open>
  Every handler's \<^verbatim>\<open>runTool\<close> has the same shape: inside \<^verbatim>\<open>try\<close>, await an operation
  of the client (or of the property manager) and return what \<^verbatim>\<open>createResponse\<close> makes of
  the value obtained from it; in \<^verbatim>\<open>catch\<close>, hand what was thrown to \<^verbatim>\<open>handleError\<close>. The
  call of \<^verbatim>\<open>createResponse\<close> stands inside the \<^verbatim>\<open>try\<close> block, so what it throws is caught
  as well. The argument \<open>outcome\<close> is either the value thrown by the awaited operation
  or the value passed to \<^verbatim>\<open>createResponse\<close>.
\<close>

definition runTool ::
  "runtime \<Rightarrow> tiktoken \<Rightarrow> (string \<Rightarrow> jsvalue option) \<Rightarrow> int \<Rightarrow> string \<Rightarrow> thrown + jsvalue
     \<Rightarrow> ObsidianError + debug_entry list \<times> TextContent list" where
  "runTool rt tokenizer encode_throws MAX_TOKENS name outcome =
     (case outcome of
        Inl error \<Rightarrow> handleError name error
      | Inr result \<Rightarrow>
          (case createResponse rt tokenizer encode_throws MAX_TOKENS name result of
             Inl error \<Rightarrow> handleError name error
           | Inr response \<Rightarrow> Inr response))"

text \<open>
  An instance of \<open>encode_throws\<close>: the library throws the value \<open>e\<close> on every text that
  contains the special token \<^verbatim>\<open><|endoftext|>\<close>, and returns on every other text.
\<close>

definition special_token_throws :: "jsvalue \<Rightarrow> string \<Rightarrow> jsvalue option" where
  "special_token_throws e txt = (if sublist ''<|endoftext|>'' txt then Some e else None)"

section \<open>Lifecycle of the tokenizers\<close>

text \<open>
  Acquiring and freeing tokenizers and registering listeners are effects on the Node
  process. The process state records how many tokenizers \<^verbatim>\<open>encoding_for_model\<close> has
  handed out (the handles are \<open>0, 1, ...\<close> in order of acquisition), on which handles
  \<^verbatim>\<open>free()\<close> has been executed (one entry per execution, oldest first), the objects of
  the two classes (a reference is an index into \<open>objects\<close>), and the listeners registered
  with \<^verbatim>\<open>process.on\<close> in order of registration. A listener is a closure over the object
  that created it.
\<close>

datatype event = Exit | SIGINT | SIGTERM | UncaughtException

datatype listener = TokenCounter_listener nat | BaseToolHandler_listener nat

datatype owner = TokenCounter_object | BaseToolHandler_object string

record js_object =
  owner :: owner
  tokenizer :: "nat option"
  isShuttingDown :: bool

record process =
  acquired :: nat
  freed :: "nat list"
  objects :: "js_object list"
  listeners :: "(event \<times> listener) list"

definition process0 :: process where
  "process0 = \<lparr>acquired = 0, freed = [], objects = [], listeners = []\<rparr>"

definition encoding_for_model :: "process \<Rightarrow> nat \<times> process" where
  "encoding_for_model p = (acquired p, p\<lparr>acquired := Suc (acquired p)\<rparr>)"

definition tokenizer_free :: "nat \<Rightarrow> process \<Rightarrow> process" where
  "tokenizer_free h p = p\<lparr>freed := freed p @ [h]\<rparr>"

definition process_on :: "event \<Rightarrow> listener \<Rightarrow> process \<Rightarrow> process" where
  "process_on ev l p = p\<lparr>listeners := listeners p @ [(ev, l)]\<rparr>"

text \<open>\<^verbatim>\<open>process.off\<close> removes the most recently added registration of the listener.\<close>

definition process_off :: "event \<Rightarrow> listener \<Rightarrow> process \<Rightarrow> process" where
  "process_off ev l p = p\<lparr>listeners := rev (remove1 (ev, l) (rev (listeners p)))\<rparr>"

text \<open>
  \<^verbatim>\<open>new TokenCounter()\<close>: the field initialisers run first (the tokenizer is acquired
  and the flag cleared), then the constructor body registers the cleanup listener for
  the four events.
\<close>

definition new_TokenCounter :: "process \<Rightarrow> nat \<times> process" where
  "new_TokenCounter p =
     (let (h, p1) = encoding_for_model p;
          this = length (objects p1);
          p2 = p1\<lparr>objects := objects p1 @
                 [\<lparr>owner = TokenCounter_object, tokenizer = Some h, isShuttingDown = False\<rparr>]\<rparr>;
          cleanupListener = TokenCounter_listener this
      in (this,
          process_on UncaughtException cleanupListener
            (process_on SIGTERM cleanupListener
              (process_on SIGINT cleanupListener
                (process_on Exit cleanupListener p2)))))"

definition TokenCounter_removeListeners :: "nat \<Rightarrow> process \<Rightarrow> process" where
  "TokenCounter_removeListeners this p =
     (let cleanupListener = TokenCounter_listener this
      in process_off UncaughtException cleanupListener
           (process_off SIGTERM cleanupListener
             (process_off SIGINT cleanupListener
               (process_off Exit cleanupListener p))))"

text \<open>
  The closure \<^verbatim>\<open>cleanupListener\<close> of a \<^verbatim>\<open>TokenCounter\<close>. \<^verbatim>\<open>if (this.tokenizer)\<close> tests
  that the field holds an object. A reference that points to no object cannot occur in
  the source; the model leaves the process unchanged there.
\<close>

definition TokenCounter_cleanupListener :: "nat \<Rightarrow> process \<Rightarrow> process" where
  "TokenCounter_cleanupListener this p =
     (if this < length (objects p) then
        let obj = objects p ! this
        in if \<not> isShuttingDown obj then
             let p1 = p\<lparr>objects := (objects p)[this := obj\<lparr>isShuttingDown := True\<rparr>]\<rparr>;
                 p2 = (case tokenizer obj of Some h \<Rightarrow> tokenizer_free h p1 | None \<Rightarrow> p1)
             in TokenCounter_removeListeners this p2
           else p
      else p)"

definition TokenCounter_cleanup :: "nat \<Rightarrow> process \<Rightarrow> process" where
  "TokenCounter_cleanup this p = TokenCounter_cleanupListener this p"

text \<open>
  \<^verbatim>\<open>new BaseToolHandler(name, client)\<close> (through the constructor of a subclass) and the
  closure \<^verbatim>\<open>cleanup\<close> it registers, which does not remove the listeners.
\<close>

definition new_BaseToolHandler :: "string \<Rightarrow> process \<Rightarrow> nat \<times> process" where
  "new_BaseToolHandler name p =
     (let (h, p1) = encoding_for_model p;
          this = length (objects p1);
          p2 = p1\<lparr>objects := objects p1 @
                 [\<lparr>owner = BaseToolHandler_object name, tokenizer = Some h, isShuttingDown = False\<rparr>]\<rparr>;
          cleanup = BaseToolHandler_listener this
      in (this,
          process_on UncaughtException cleanup
            (process_on SIGTERM cleanup
              (process_on SIGINT cleanup
                (process_on Exit cleanup p2)))))"

definition BaseToolHandler_cleanup :: "nat \<Rightarrow> process \<Rightarrow> process" where
  "BaseToolHandler_cleanup this p =
     (if this < length (objects p) then
        let obj = objects p ! this
        in if \<not> isShuttingDown obj then
             let p1 = p\<lparr>objects := (objects p)[this := obj\<lparr>isShuttingDown := True\<rparr>]\<rparr>
             in (case tokenizer obj of Some h \<Rightarrow> tokenizer_free h p1 | None \<Rightarrow> p1)
           else p
      else p)"

text \<open>
  Emitting an event calls the listeners registered for it at that moment, in order of
  registration; a listener removed while the event is being delivered is still called.
\<close>

fun call_listener :: "listener \<Rightarrow> process \<Rightarrow> process" where
  "call_listener (TokenCounter_listener this) p = TokenCounter_cleanupListener this p"
| "call_listener (BaseToolHandler_listener this) p = BaseToolHandler_cleanup this p"

definition emit :: "event \<Rightarrow> process \<Rightarrow> process" where
  "emit ev p = fold call_listener (map snd (filter (\<lambda>(e, l). e = ev) (listeners p))) p"

text \<open>
  What can happen during the life of the process: objects of the two classes are
  constructed, events are emitted, \<^verbatim>\<open>cleanup()\<close> is called on a \<^verbatim>\<open>TokenCounter\<close>, and
  \<^verbatim>\<open>countTokens\<close> and \<^verbatim>\<open>truncateToTokenLimit\<close> are called on an object of either class.
  These two assign no field, acquire and free nothing and register nothing, so they
  leave the process state as it is.
\<close>

datatype action =
    New_TokenCounter
  | New_BaseToolHandler string
  | Emit event
  | Call_cleanup nat
  | Call_countTokens nat string
  | Call_truncateToTokenLimit nat string "int option"

fun step :: "action \<Rightarrow> process \<Rightarrow> process" where
  "step New_TokenCounter p = snd (new_TokenCounter p)"
| "step (New_BaseToolHandler name) p = snd (new_BaseToolHandler name p)"
| "step (Emit ev) p = emit ev p"
| "step (Call_cleanup this) p =
     (if this < length (objects p) \<and> owner (objects p ! this) = TokenCounter_object
      then TokenCounter_cleanup this p else p)"
| "step (Call_countTokens this txt) p = p"
| "step (Call_truncateToTokenLimit this txt limit_arg) p = p"

definition run :: "action list \<Rightarrow> process \<Rightarrow> process" where
  "run acts p = fold step acts p"

fun constructs :: "action \<Rightarrow> bool" where
  "constructs New_TokenCounter = True"
| "constructs (New_BaseToolHandler name) = True"
| "constructs a = False"

text \<open>
  The invariant that every run from the empty process maintains: the \<open>r\<close>-th object
  holds the \<open>r\<close>-th tokenizer, that tokenizer has been freed once if the object's flag
  is set and never otherwise, and nothing else has been freed.
\<close>

definition lifecycle_inv :: "process \<Rightarrow> bool" where
  "lifecycle_inv p \<longleftrightarrow>
     length (objects p) = acquired p \<and>
     (\<forall>r < acquired p.
        tokenizer (objects p ! r) = Some r \<and>
        count_list (freed p) r = (if isShuttingDown (objects p ! r) then 1 else 0)) \<and>
     (\<forall>h \<in> set (freed p). h < acquired p)"

section \<open>The specification's account of truncation and of joining\<close>

text \<open>
  The specification describes truncation in these words: if \<open>count(text) \<le> limit\<close> the
  text is returned unchanged; otherwise \<open>reserved = count(marker)\<close>,
  \<open>available = max(0, limit - reserved)\<close>, the first \<open>available\<close> tokens of the encoded
  sequence are decoded and the marker is appended. \<open>truncate_spec\<close> is that description,
  to be compared with the two functions of the source.
\<close>

definition truncate_spec :: "tiktoken \<Rightarrow> string \<Rightarrow> int \<Rightarrow> string" where
  "truncate_spec tk txt limit =
     (if TokenCounter_countTokens tk txt \<le> limit then txt
      else
        let reserved = TokenCounter_countTokens tk TRUNCATION_MESSAGE;
            available = max 0 (limit - reserved)
        in decode tk (take (nat available) (encode tk txt)) @ TRUNCATION_MESSAGE)"

text \<open>Strings joined with a separator between neighbours, as the specification puts it.\<close>

fun join_with :: "string \<Rightarrow> string list \<Rightarrow> string" where
  "join_with separator [] = []"
| "join_with separator [s] = s"
| "join_with separator (s # t # ts) = s @ separator @ join_with separator (t # ts)"

section \<open>A concrete runtime for evaluating the definitions\<close>

text \<open>
  An instance of the built-in conversions that agrees with JavaScript on the values used
  below: bytes below 128 decode to the characters with these codes; \<^verbatim>\<open>null\<close>, the
  booleans and the array \<^verbatim>\<open>["a", null]\<close> serialise as \<^verbatim>\<open>JSON.stringify(v, null, 2)\<close> prints
  them. On every other value this instance lets serialisation throw and converts to
  \<^verbatim>\<open>[object Object]\<close>.
\<close>

definition sample_array_json :: string where
  "sample_array_json =
     ''['' @ [CHR 0x0A] @ ''  '' @ [CHR 0x22] @ ''a'' @ [CHR 0x22] @ '','' @ [CHR 0x0A] @
     ''  null'' @ [CHR 0x0A] @ '']''"

definition sample_runtime :: runtime where
  "sample_runtime =
     \<lparr>toString_utf8 = map (\<lambda>b. char_of (unat b)),
      JSON_stringify =
        (\<lambda>v. if v = JNull then Some ''null''
             else if v = JBool True then Some ''true''
             else if v = JBool False then Some ''false''
             else if v = JArray [JString ''a'', JNull] then Some sample_array_json
             else None),
      String_conv = (\<lambda>v. ''[object Object]'')\<rparr>"

section \<open>The property tools and the property manager\<close>

text \<open>
  The two property handlers (\<^verbatim>\<open>GetPropertiesToolHandler\<close>, \<^verbatim>\<open>UpdatePropertiesToolHandler\<close>)
  pass their arguments to
  \<^verbatim>\<open>PropertyManager.getProperties\<close> and \<^verbatim>\<open>PropertyManager.updateProperties\<close> and
  wrap the outcome with \<open>runTool\<close> above. The class \<^verbatim>\<open>PropertyManager\<close> (properties.ts)
  and the type \<^verbatim>\<open>ObsidianProperties\<close> (propertyTypes.ts) are not among the sources; the
  definitions of this section follow sections 3, 4.3, 4.4 and 6 of the specification.
\<close>

type_synonym timestamp = nat

text \<open>
  Modelled from the spec: the type \<^verbatim>\<open>ObsidianProperties\<close> (propertyTypes.ts) is missing.
  The PropertySet of section 3: the scalar fields, the two timestamps, the array fields
  (\<open>note_type\<close> is the field \<^verbatim>\<open>type\<close>) and the open mapping \<open>custom\<close>.
\<close>

record PropertySet =
  title :: "string option"
  author :: "string option"
  version :: "string option"
  platform :: "string option"
  repository :: "string option"
  created :: "timestamp option"
  modified :: "timestamp option"
  note_type :: "string list"
  tags :: "string list"
  status :: "string list"
  dependencies :: "string list"
  sources :: "string list"
  urls :: "string list"
  papers :: "string list"
  custom :: "string \<rightharpoonup> jsvalue"

text \<open>
  Modelled from the spec: the argument type \<^verbatim>\<open>Partial<ObsidianProperties>\<close> is missing.
  A partial update: every field may be absent.
\<close>

record PropertyUpdate =
  upd_title :: "string option"
  upd_author :: "string option"
  upd_version :: "string option"
  upd_platform :: "string option"
  upd_repository :: "string option"
  upd_created :: "timestamp option"
  upd_modified :: "timestamp option"
  upd_note_type :: "string list option"
  upd_tags :: "string list option"
  upd_status :: "string list option"
  upd_dependencies :: "string list option"
  upd_sources :: "string list option"
  upd_urls :: "string list option"
  upd_papers :: "string list option"
  upd_custom :: "(string \<rightharpoonup> jsvalue) option"

text \<open>
  Modelled from the spec: the merge of \<^verbatim>\<open>PropertyManager\<close> (properties.ts) is missing.
  Rule 1 of section 4.3, for a scalar field: the incoming value replaces the existing
  one when present.
\<close>

definition merge_scalar :: "'a option \<Rightarrow> 'a option \<Rightarrow> 'a option" where
  "merge_scalar existing incoming = (case incoming of Some v \<Rightarrow> Some v | None \<Rightarrow> existing)"

text \<open>
  Modelled from the spec: the merge of \<^verbatim>\<open>PropertyManager\<close> (properties.ts) is missing.
  Rule 2 of section 4.3, for \<open>created\<close>: the existing value is kept when there is one,
  whatever the update says; the incoming value is adopted only when there is none.
\<close>

definition merge_created :: "timestamp option \<Rightarrow> timestamp option \<Rightarrow> timestamp option" where
  "merge_created existing incoming = (case existing of Some c \<Rightarrow> Some c | None \<Rightarrow> incoming)"

text \<open>
  Modelled from the spec: the merge of \<^verbatim>\<open>PropertyManager\<close> (properties.ts) is missing.
  Rule 4 of section 4.3, for an array field: the existing values followed by the
  incoming values that are not yet present, in their order.
\<close>

definition insert_if_absent :: "string \<Rightarrow> string list \<Rightarrow> string list" where
  "insert_if_absent v vs = (if v \<in> set vs then vs else vs @ [v])"

text \<open>
  Modelled from the spec: the merge of \<^verbatim>\<open>PropertyManager\<close> (properties.ts) is missing.
  Rule 4 of section 4.3 for a field of the update that may be absent: an absent field
  leaves the existing values as they are.
\<close>

definition merge_array :: "string list \<Rightarrow> string list option \<Rightarrow> string list" where
  "merge_array existing incoming =
     (case incoming of None \<Rightarrow> existing | Some vs \<Rightarrow> fold insert_if_absent vs existing)"

text \<open>
  Modelled from the spec: the merge of \<^verbatim>\<open>PropertyManager\<close> (properties.ts) is missing.
  Rule 5 of section 4.3, for \<open>custom\<close>: a shallow merge in which incoming keys overwrite.
\<close>

definition merge_custom ::
  "(string \<rightharpoonup> jsvalue) \<Rightarrow> (string \<rightharpoonup> jsvalue) option \<Rightarrow> (string \<rightharpoonup> jsvalue)" where
  "merge_custom existing incoming = (case incoming of None \<Rightarrow> existing | Some m \<Rightarrow> existing ++ m)"

text \<open>
  Modelled from the spec: the merge of \<^verbatim>\<open>PropertyManager\<close> (properties.ts) is missing.
  Rules 1 to 5 of section 4.3 together; \<open>now\<close> is the current time, which rule 3 stores
  in \<open>modified\<close> whatever the update says.
\<close>

definition merge_properties :: "timestamp \<Rightarrow> PropertySet \<Rightarrow> PropertyUpdate \<Rightarrow> PropertySet" where
  "merge_properties now existing incoming =
     \<lparr>title = merge_scalar (title existing) (upd_title incoming),
      author = merge_scalar (author existing) (upd_author incoming),
      version = merge_scalar (version existing) (upd_version incoming),
      platform = merge_scalar (platform existing) (upd_platform incoming),
      repository = merge_scalar (repository existing) (upd_repository incoming),
      created = merge_created (created existing) (upd_created incoming),
      modified = Some now,
      note_type = merge_array (note_type existing) (upd_note_type incoming),
      tags = merge_array (tags existing) (upd_tags incoming),
      status = merge_array (status existing) (upd_status incoming),
      dependencies = merge_array (dependencies existing) (upd_dependencies incoming),
      sources = merge_array (sources existing) (upd_sources incoming),
      urls = merge_array (urls existing) (upd_urls incoming),
      papers = merge_array (papers existing) (upd_papers incoming),
      custom = merge_custom (custom existing) (upd_custom incoming)\<rparr>"

text \<open>
  Modelled from the spec: the schema of \<^verbatim>\<open>PropertyManager\<close> (properties.ts) is missing.
  The enumeration of \<^verbatim>\<open>type\<close> in section 3.
\<close>

definition type_enum :: "string list" where
  "type_enum = [''concept'', ''architecture'', ''specification'', ''protocol'', ''api'',
                ''research'', ''implementation'', ''guide'', ''reference'']"

text \<open>
  Modelled from the spec: the schema of \<^verbatim>\<open>PropertyManager\<close> (properties.ts) is missing.
  The enumeration of \<^verbatim>\<open>status\<close> in section 3.
\<close>

definition status_enum :: "string list" where
  "status_enum = [''draft'', ''in-progress'', ''review'', ''complete'']"

text \<open>
  Modelled from the spec: the schema of \<^verbatim>\<open>PropertyManager\<close> (properties.ts) is missing.
  The pattern of a tag in section 3: it starts with \<^verbatim>\<open>#\<close>.
\<close>

definition starts_with_hash :: "string \<Rightarrow> bool" where
  "starts_with_hash s = (case s of [] \<Rightarrow> False | c # cs \<Rightarrow> c = CHR 0x23)"

text \<open>
  Modelled from the spec: the schema validation of \<^verbatim>\<open>PropertyManager\<close> (properties.ts)
  is missing. The rules of section 4.3: entries of \<^verbatim>\<open>type\<close> and \<^verbatim>\<open>status\<close> belong to their
  enumerations, entries of \<^verbatim>\<open>tags\<close> start with \<^verbatim>\<open>#\<close>, \<^verbatim>\<open>urls\<close> and \<^verbatim>\<open>repository\<close> are
  URI-like (a test the specification leaves open, hence a parameter). The result is the
  list of offending field names.
\<close>

definition validate_properties :: "(string \<Rightarrow> bool) \<Rightarrow> PropertySet \<Rightarrow> string list" where
  "validate_properties uri_like ps =
     (if list_all (\<lambda>v. v \<in> set type_enum) (note_type ps) then [] else [''type'']) @
     (if list_all starts_with_hash (tags ps) then [] else [''tags'']) @
     (if list_all (\<lambda>v. v \<in> set status_enum) (status ps) then [] else [''status'']) @
     (if list_all uri_like (urls ps) then [] else [''urls'']) @
     (case repository ps of
        None \<Rightarrow> []
      | Some r \<Rightarrow> if uri_like r then [] else [''repository''])"

text \<open>
  Modelled from the spec: the store behind the vault accessor \<^verbatim>\<open>ObsidianClient\<close>
  (obsidian.ts) is missing. A vault maps the path of a note to its body and its raw
  front matter, what \<open>readNote\<close> of section 6 returns.
\<close>

type_synonym vault = "string \<rightharpoonup> string \<times> string"

text \<open>
  Modelled from the spec: the front-matter parser and serialiser, the URI test and the
  write operation of the accessor are missing. They are parameters: parsing (\<open>None\<close> for
  a malformed block), serialising, the URI test, and the paths on which a write fails.
\<close>

record accessor =
  parse_frontmatter :: "string \<Rightarrow> PropertySet option"
  serialize_frontmatter :: "PropertySet \<Rightarrow> string"
  is_uri :: "string \<Rightarrow> bool"
  write_fails :: "string \<Rightarrow> bool"

text \<open>
  Modelled from the spec: the error classes of the property manager are missing. The
  taxonomy of section 7, as far as the property operations raise it.
\<close>

datatype property_error =
    ValidationError "string list"
  | ParseError
  | NotFoundError
  | InfraError

text \<open>
  Modelled from the spec: \<^verbatim>\<open>PropertyManager.getProperties\<close> (properties.ts) is missing.
  Section 4.4: fetch the note, parse its front matter; NotFoundError if the note does not
  exist, ParseError if the block is malformed.
\<close>

definition getProperties :: "accessor \<Rightarrow> vault \<Rightarrow> string \<Rightarrow> property_error + PropertySet" where
  "getProperties acc v path =
     (case v path of
        None \<Rightarrow> Inl NotFoundError
      | Some (body, raw) \<Rightarrow>
          (case parse_frontmatter acc raw of
             None \<Rightarrow> Inl ParseError
           | Some ps \<Rightarrow> Inr ps))"

text \<open>
  Modelled from the spec: \<^verbatim>\<open>PropertyManager.updateProperties\<close> (properties.ts) is missing.
  Section 4.4: fetch the current PropertySet, merge, validate, serialise the merged set
  in front of the untouched body and write the note back. A validation failure returns
  ValidationError and writes nothing; a failing write is an infrastructure error. A
  success returns the merged set that was written together with the vault after the
  write.
\<close>

definition updateProperties ::
  "accessor \<Rightarrow> timestamp \<Rightarrow> vault \<Rightarrow> string \<Rightarrow> PropertyUpdate
     \<Rightarrow> property_error + PropertySet \<times> vault" where
  "updateProperties acc now v path incoming =
     (case v path of
        None \<Rightarrow> Inl NotFoundError
      | Some (body, raw) \<Rightarrow>
          (case parse_frontmatter acc raw of
             None \<Rightarrow> Inl ParseError
           | Some existing \<Rightarrow>
               let merged = merge_properties now existing incoming;
                   offending = validate_properties (is_uri acc) merged
               in if offending \<noteq> [] then Inl (ValidationError offending)
                  else if write_fails acc path then Inl InfraError
                  else Inr (merged, v(path \<mapsto> (body, serialize_frontmatter acc merged)))))"

text \<open>
  A note and an accessor for evaluating these definitions: the front matter
  \<^verbatim>\<open>created: 100\<close> parses to the PropertySet whose only content is that timestamp.
\<close>

definition sample_properties :: PropertySet where
  "sample_properties =
     \<lparr>title = None, author = None, version = None, platform = None, repository = None,
      created = Some 100, modified = None, note_type = [], tags = [], status = [],
      dependencies = [], sources = [], urls = [], papers = [], custom = Map.empty\<rparr>"

definition sample_accessor :: accessor where
  "sample_accessor =
     \<lparr>parse_frontmatter = (\<lambda>raw. if raw = ''created: 100'' then Some sample_properties else None),
      serialize_frontmatter = (\<lambda>ps. ''''),
      is_uri = (\<lambda>s. True),
      write_fails = (\<lambda>path. False)\<rparr>"

definition sample_vault :: vault where
  "sample_vault = [''note.md'' \<mapsto> (''body'', ''created: 100'')]"

definition sample_update :: PropertyUpdate where
  "sample_update =
     \<lparr>upd_title = Some ''Renamed'', upd_author = None, upd_version = None, upd_platform = None,
      upd_repository = None, upd_created = Some 999, upd_modified = None, upd_note_type = None,
      upd_tags = Some [''#a''], upd_status = None, upd_dependencies = None, upd_sources = None,
      upd_urls = None, upd_papers = None, upd_custom = None\<rparr>"

section \<open>Basic facts\<close>

lemma length_TRUNCATION_MESSAGE: "length TRUNCATION_MESSAGE = 36"
  by (simp add: TRUNCATION_MESSAGE_def)

lemma encode_char_tokenizer: "encode char_tokenizer s = map of_char s"
  by (simp add: char_tokenizer_def)

lemma count_char_tokenizer: "TokenCounter_countTokens char_tokenizer s = int (length s)"
  by (simp add: TokenCounter_countTokens_def encode_char_tokenizer)

lemma slice_from_0_nonneg: "0 \<le> e \<Longrightarrow> js_slice xs 0 e = take (nat e) xs"
  by (cases "e \<le> int (length xs)") (simp_all add: js_slice_def relative_index_def Let_def min_def)

lemma slice_from_0_neg: "e < 0 \<Longrightarrow> js_slice xs 0 e = take (length xs - nat (- e)) xs"
proof -
  assume "e < 0"
  then have "nat (max (max (int (length xs) + e) 0) 0) = length xs - nat (- e)"
    by linarith
  with \<open>e < 0\<close> show ?thesis
    by (simp add: js_slice_def relative_index_def Let_def)
qed

section \<open>Truncation within budget\<close>

text \<open>
  Claim C2. For every text \<open>T\<close> and every budget \<open>L\<close> with \<open>count(T) \<le> L\<close>,
  \<open>truncate(T, L)\<close> returns \<open>T\<close> itself: nothing is cut and no truncation marker is
  appended. The budget may be passed explicitly or left to default to \<open>MAX_TOKENS\<close>.
\<close>

theorem truncate_within_budget_identity:
  "TokenCounter_countTokens tk T \<le> L \<Longrightarrow>
     TokenCounter_truncateToTokenLimit tk MAX_TOKENS T (Some L) = T \<and>
     TokenCounter_truncateToTokenLimit tk L T None = T"
  by (simp add: TokenCounter_countTokens_def TokenCounter_truncateToTokenLimit_def Let_def)

theorem truncate_within_budget_identity_witness:
  "TokenCounter_countTokens char_tokenizer ''hello'' \<le> 5 \<and>
   TokenCounter_truncateToTokenLimit char_tokenizer 20000 ''hello'' (Some 5) = ''hello'' \<and>
   TokenCounter_truncateToTokenLimit char_tokenizer 5 ''hello'' None = ''hello''"
proof -
  have h: "TokenCounter_countTokens char_tokenizer ''hello'' \<le> 5"
    by (simp add: count_char_tokenizer)
  show ?thesis
    using h truncate_within_budget_identity [OF h, of 20000] by simp
qed

section \<open>Truncation over budget\<close>

text \<open>
  What both copies of \<^verbatim>\<open>truncateToTokenLimit\<close> return for a text over the budget, for
  every tokenizer: the value of \<^verbatim>\<open>limit - messageTokens.length\<close> goes to \<^verbatim>\<open>slice\<close> as it
  is. When it is negative, \<^verbatim>\<open>slice\<close> drops that many tokens from the end and keeps the
  rest, where the specification's \<open>max(0, limit - reserved)\<close> keeps none.
\<close>

lemma truncate_over_budget_value:
  assumes "L < TokenCounter_countTokens tk T"
  shows "TokenCounter_truncateToTokenLimit tk MAX_TOKENS T (Some L) =
           decode tk (js_slice (encode tk T) 0 (L - TokenCounter_countTokens tk TRUNCATION_MESSAGE))
             @ TRUNCATION_MESSAGE"
    and "BaseToolHandler_truncateToTokenLimit tk L T =
           TokenCounter_truncateToTokenLimit tk MAX_TOKENS T (Some L)"
  using assms
  by (simp_all add: TokenCounter_truncateToTokenLimit_def BaseToolHandler_truncateToTokenLimit_def
      TokenCounter_countTokens_def Let_def)

lemma truncate_below_marker_cost:
  assumes "L < TokenCounter_countTokens tk T"
    and "L < TokenCounter_countTokens tk TRUNCATION_MESSAGE"
  shows "TokenCounter_truncateToTokenLimit tk MAX_TOKENS T (Some L) =
           decode tk
             (take (length (encode tk T) - nat (TokenCounter_countTokens tk TRUNCATION_MESSAGE - L))
                (encode tk T))
             @ TRUNCATION_MESSAGE"
  using assms
  by (simp add: truncate_over_budget_value slice_from_0_neg)

lemma encode_gpt4_sample_text:
  "encode gpt4_sample sample_text = [100, 101, 102, 103, 104, 105, 106, 107, 108, 109, 110, 111]"
  by (simp add: gpt4_sample_def)

lemma sample_text_not_marker: "sample_text \<noteq> TRUNCATION_MESSAGE"
  by (simp add: sample_text_def TRUNCATION_MESSAGE_def)

lemma encode_gpt4_marker: "encode gpt4_sample TRUNCATION_MESSAGE = marker_tokens"
  using sample_text_not_marker by (simp add: gpt4_sample_def)

lemma count_gpt4_sample:
  "TokenCounter_countTokens gpt4_sample sample_text = 12"
  "TokenCounter_countTokens gpt4_sample TRUNCATION_MESSAGE = 8"
  by (simp_all add: TokenCounter_countTokens_def encode_gpt4_sample_text encode_gpt4_marker
      marker_tokens_def)

lemma decode_gpt4_sample:
  "decode gpt4_sample [100, 101] = bytes_of_2_tokens"
  "decode gpt4_sample [100, 101, 102, 103, 104, 105, 106, 107, 108] = bytes_of_9_tokens"
  "decode gpt4_sample [] = []"
  by (simp_all add: gpt4_sample_def)

lemma count_gpt4_truncated:
  "TokenCounter_countTokens gpt4_sample (bytes_of_2_tokens @ TRUNCATION_MESSAGE) = 13"
  "TokenCounter_countTokens gpt4_sample (bytes_of_9_tokens @ TRUNCATION_MESSAGE) = 41"
proof -
  have ne: "bytes_of_2_tokens @ TRUNCATION_MESSAGE \<noteq> sample_text"
    "bytes_of_9_tokens @ TRUNCATION_MESSAGE \<noteq> sample_text"
    "bytes_of_2_tokens @ TRUNCATION_MESSAGE \<noteq> TRUNCATION_MESSAGE"
    "bytes_of_9_tokens @ TRUNCATION_MESSAGE \<noteq> TRUNCATION_MESSAGE"
    "bytes_of_9_tokens @ TRUNCATION_MESSAGE \<noteq> bytes_of_2_tokens @ TRUNCATION_MESSAGE"
    by (simp_all add: bytes_of_2_tokens_def bytes_of_9_tokens_def sample_text_def
        TRUNCATION_MESSAGE_def)
  show "TokenCounter_countTokens gpt4_sample (bytes_of_2_tokens @ TRUNCATION_MESSAGE) = 13"
    using ne by (simp add: TokenCounter_countTokens_def gpt4_sample_def marker_tokens_def)
  show "TokenCounter_countTokens gpt4_sample (bytes_of_9_tokens @ TRUNCATION_MESSAGE) = 41"
    using ne by (simp add: TokenCounter_countTokens_def gpt4_sample_def marker_tokens_def)
qed

text \<open>
  Claim C1. The claim: for every text \<open>T\<close> and budget \<open>L\<close> with \<open>count(T) > L\<close>,
  \<open>truncate(T, L)\<close> has at most \<open>L\<close> tokens and ends with the truncation marker, being
  the text of the first \<open>max(0, L - count(marker))\<close> tokens followed by the marker. The
  code does not do this. The theorem evaluates both copies of \<^verbatim>\<open>truncateToTokenLimit\<close>
  on the twelve-token text \<^verbatim>\<open>a b c d e f g h i j k l\<close>, as the gpt-4 encoding treats it.
  With the budget 10, which leaves room for two tokens beside the eight of the marker,
  the result is not \<^verbatim>\<open>a b\<close> and the marker but the bytes of \<^verbatim>\<open>a b\<close> written as decimal
  numbers and the marker, 13 tokens. With the budget 5, below the cost of the marker,
  \<^verbatim>\<open>slice(0, -3)\<close> keeps nine of the twelve tokens where the description keeps none, and
  the result has 41 tokens. Both results end with the marker.
\<close>

theorem truncate_over_budget_evaluated:
  "TokenCounter_countTokens gpt4_sample sample_text = 12 \<and>
   TokenCounter_countTokens gpt4_sample TRUNCATION_MESSAGE = 8 \<and>
   TokenCounter_truncateToTokenLimit gpt4_sample 20000 sample_text (Some 10) =
     ''97,32,98'' @ TRUNCATION_MESSAGE \<and>
   BaseToolHandler_truncateToTokenLimit gpt4_sample 10 sample_text =
     ''97,32,98'' @ TRUNCATION_MESSAGE \<and>
   TokenCounter_countTokens gpt4_sample
     (TokenCounter_truncateToTokenLimit gpt4_sample 20000 sample_text (Some 10)) = 13 \<and>
   TokenCounter_truncateToTokenLimit gpt4_sample 20000 sample_text (Some 5) =
     ''97,32,98,32,99,32,100,32,101,32,102,32,103,32,104,32,105'' @ TRUNCATION_MESSAGE \<and>
   BaseToolHandler_truncateToTokenLimit gpt4_sample 5 sample_text =
     ''97,32,98,32,99,32,100,32,101,32,102,32,103,32,104,32,105'' @ TRUNCATION_MESSAGE \<and>
   TokenCounter_countTokens gpt4_sample
     (TokenCounter_truncateToTokenLimit gpt4_sample 20000 sample_text (Some 5)) = 41 \<and>
   truncate_spec gpt4_sample sample_text 5 = TRUNCATION_MESSAGE"
proof -
  have over10: "10 < TokenCounter_countTokens gpt4_sample sample_text"
    and over5: "5 < TokenCounter_countTokens gpt4_sample sample_text"
    and below: "5 < TokenCounter_countTokens gpt4_sample TRUNCATION_MESSAGE"
    by (simp_all add: count_gpt4_sample)
  have t10: "TokenCounter_truncateToTokenLimit gpt4_sample 20000 sample_text (Some 10) =
      bytes_of_2_tokens @ TRUNCATION_MESSAGE"
    by (simp add: truncate_over_budget_value(1) [OF over10] count_gpt4_sample
        encode_gpt4_sample_text slice_from_0_nonneg decode_gpt4_sample)
  have t5: "TokenCounter_truncateToTokenLimit gpt4_sample 20000 sample_text (Some 5) =
      bytes_of_9_tokens @ TRUNCATION_MESSAGE"
    by (simp add: truncate_below_marker_cost [OF over5 below] count_gpt4_sample
        encode_gpt4_sample_text decode_gpt4_sample)
  have b10: "BaseToolHandler_truncateToTokenLimit gpt4_sample 10 sample_text =
      bytes_of_2_tokens @ TRUNCATION_MESSAGE"
    by (simp only: truncate_over_budget_value(2) [OF over10, of 20000] t10)
  have b5: "BaseToolHandler_truncateToTokenLimit gpt4_sample 5 sample_text =
      bytes_of_9_tokens @ TRUNCATION_MESSAGE"
    by (simp only: truncate_over_budget_value(2) [OF over5, of 20000] t5)
  have c10: "TokenCounter_countTokens gpt4_sample
      (TokenCounter_truncateToTokenLimit gpt4_sample 20000 sample_text (Some 10)) = 13"
    by (simp only: t10 count_gpt4_truncated)
  have c5: "TokenCounter_countTokens gpt4_sample
      (TokenCounter_truncateToTokenLimit gpt4_sample 20000 sample_text (Some 5)) = 41"
    by (simp only: t5 count_gpt4_truncated)
  have sp: "truncate_spec gpt4_sample sample_text 5 = TRUNCATION_MESSAGE"
    by (simp add: truncate_spec_def Let_def count_gpt4_sample decode_gpt4_sample)
  have names: "bytes_of_2_tokens = ''97,32,98''"
    "bytes_of_9_tokens = ''97,32,98,32,99,32,100,32,101,32,102,32,103,32,104,32,105''"
    by (simp_all only: bytes_of_2_tokens_def bytes_of_9_tokens_def)
  from count_gpt4_sample t10 b10 c10 t5 b5 c5 sp show ?thesis
    by (simp only: names simp_thms)
qed

section \<open>The two copies of the truncation logic\<close>

text \<open>
  Claim C9. For every text \<open>T\<close>, the shared utility applied with the configured budget,
  \<open>TokenCounter.truncateToTokenLimit(T, MAX_TOKENS)\<close> (the budget passed or left to its
  default), and the inline copy \<open>BaseToolHandler.truncateToTokenLimit(T)\<close> return the same
  result, and the two copies of \<open>countTokens\<close> agree as well. Both classes obtain their
  tokenizer from the same call \<^verbatim>\<open>encoding_for_model("gpt-4")\<close> and read \<^verbatim>\<open>MAX_TOKENS\<close> from
  the same environment variable, so the two functions are compared on one tokenizer and
  one budget.
\<close>

theorem truncation_copies_agree:
  "BaseToolHandler_truncateToTokenLimit tk MAX_TOKENS T =
     TokenCounter_truncateToTokenLimit tk MAX_TOKENS T (Some MAX_TOKENS) \<and>
   BaseToolHandler_truncateToTokenLimit tk MAX_TOKENS T =
     TokenCounter_truncateToTokenLimit tk MAX_TOKENS T None \<and>
   BaseToolHandler_countTokens tk T = TokenCounter_countTokens tk T"
  by (simp add: BaseToolHandler_truncateToTokenLimit_def TokenCounter_truncateToTokenLimit_def
      BaseToolHandler_countTokens_def TokenCounter_countTokens_def)

section \<open>The response builder\<close>

lemma js_join_strings: "js_join rt (map JString ss) separator = join_with separator ss"
  by (induction separator ss rule: join_with.induct) simp_all

lemma all_strings: "list_all typeof_string (map JString ss)"
  by (induction ss) simp_all

text \<open>
  Claim C4. The response builder turns a result value into text with this precedence: a
  string passes through unchanged; a byte payload is decoded as UTF-8; an array whose
  elements are all strings is joined with newline separators; an \<^verbatim>\<open>Error\<close> becomes
  \<^verbatim>\<open>Error: <message>\<close>, a newline and its stack (nothing when it has none); any other
  value, among them an array with an element that is not a string, is serialised with
  \<^verbatim>\<open>JSON.stringify\<close>, and converted with \<^verbatim>\<open>String\<close> when serialisation throws.
\<close>

theorem createResponse_text_precedence:
  "createResponse_text rt (JString s) = s \<and>
   createResponse_text rt (JBuffer b) = toString_utf8 rt b \<and>
   createResponse_text rt (JArray (map JString ss)) = join_with [CHR 0x0A] ss \<and>
   createResponse_text rt (JError msg stack) =
     ''Error: '' @ msg @ [CHR 0x0A] @ (case stack of None \<Rightarrow> [] | Some st \<Rightarrow> st) \<and>
   (\<not> typeof_string v \<and> \<not> instanceof_Buffer v \<and> \<not> instanceof_Error v \<and>
    \<not> (\<exists>ss. v = JArray (map JString ss)) \<longrightarrow>
      createResponse_text rt v =
        (case JSON_stringify rt v of Some json \<Rightarrow> json | None \<Rightarrow> String_conv rt v))"
proof -
  have other: "createResponse_text rt v =
        (case JSON_stringify rt v of Some json \<Rightarrow> json | None \<Rightarrow> String_conv rt v)"
    if "\<not> typeof_string v" "\<not> instanceof_Buffer v" "\<not> instanceof_Error v"
       "\<not> (\<exists>ss. v = JArray (map JString ss))"
  proof (cases v)
    case (JArray items)
    have "\<not> list_all typeof_string items"
    proof
      assume "list_all typeof_string items"
      then have "items = map JString (map (\<lambda>x. case x of JString s \<Rightarrow> s | _ \<Rightarrow> []) items)"
        by (induction items) (auto split: jsvalue.splits)
      with that(4) JArray show False by blast
    qed
    with JArray show ?thesis by (simp add: createResponse_text_def split: option.splits)
  qed (use that in \<open>simp_all add: createResponse_text_def split: option.splits\<close>)
  show ?thesis
    using other by (simp add: createResponse_text_def js_join_strings all_strings)
qed


lemma sample_not_all_strings: "\<not> (\<exists>ss. JArray [JString ''a'', JNull] = JArray (map JString ss))"
  by (auto simp: map_eq_Cons_conv)

theorem createResponse_text_precedence_witness:
  "\<not> typeof_string (JArray [JString ''a'', JNull]) \<and>
   \<not> instanceof_Buffer (JArray [JString ''a'', JNull]) \<and>
   \<not> instanceof_Error (JArray [JString ''a'', JNull]) \<and>
   \<not> (\<exists>ss. JArray [JString ''a'', JNull] = JArray (map JString ss)) \<and>
   createResponse_text sample_runtime (JArray [JString ''a'', JNull]) = sample_array_json \<and>
   createResponse_text sample_runtime (JArray [JString ''a'', JString ''b'']) =
     ''a'' @ [CHR 0x0A] @ ''b''"
proof -
  note th = createResponse_text_precedence [of sample_runtime]
  have a: "createResponse_text sample_runtime (JArray [JString ''a'', JNull]) =
        (case JSON_stringify sample_runtime (JArray [JString ''a'', JNull]) of
           Some json \<Rightarrow> json
         | None \<Rightarrow> String_conv sample_runtime (JArray [JString ''a'', JNull]))"
    using th [of _ _ _ _ _ "JArray [JString ''a'', JNull]"] sample_not_all_strings by simp
  have b: "createResponse_text sample_runtime (JArray (map JString [''a'', ''b''])) =
        join_with [CHR 0x0A] [''a'', ''b'']"
    using th [of _ _ "[''a'', ''b'']"] by blast
  show ?thesis
    using a b sample_not_all_strings by (simp add: sample_runtime_def)
qed

text \<open>
  What \<^verbatim>\<open>createResponse\<close> returns when it returns: a list of exactly one content unit,
  of type \<^verbatim>\<open>text\<close>, holding the normalised text after truncation. It returns whenever
  \<^verbatim>\<open>encode\<close> throws on none of the texts it is called on, and throws otherwise.
\<close>

lemma createResponse_returned:
  assumes "createResponse rt tk encode_throws MAX_TOKENS name content = Inr (console, response)"
  shows "response =
           [\<lparr>type = ''text'',
             text' = BaseToolHandler_truncateToTokenLimit tk MAX_TOKENS
                       (createResponse_text rt content)\<rparr>]"
  using assms
  by (auto simp: createResponse_def try_countTokens_def try_truncateToTokenLimit_def Let_def
      BaseToolHandler_truncateToTokenLimit_def split: option.splits if_splits)

lemma createResponse_encode_returns:
  "\<exists>console.
     createResponse rt tk (\<lambda>txt. None) MAX_TOKENS name content =
       Inr (console,
            [\<lparr>type = ''text'',
              text' = BaseToolHandler_truncateToTokenLimit tk MAX_TOKENS
                        (createResponse_text rt content)\<rparr>])"
  by (simp add: createResponse_def try_countTokens_def try_truncateToTokenLimit_def Let_def
      BaseToolHandler_truncateToTokenLimit_def)

lemma createResponse_encode_throws:
  assumes "encode_throws (createResponse_text rt content) = Some e"
  shows "createResponse rt tk encode_throws MAX_TOKENS name content = Inl (Untyped e)"
  using assms by (simp add: createResponse_def try_countTokens_def)

lemma sublist_endoftext: "sublist ''<|endoftext|>'' ''a <|endoftext|> b''"
proof -
  have "''a <|endoftext|> b'' = ''a '' @ ''<|endoftext|>'' @ '' b''"
    by simp
  then show ?thesis
    unfolding sublist_def by blast
qed

text \<open>
  Claim C10. The claim: for every handler and every result value passed to the response
  builder, the value returned to the caller is a list of exactly one text content unit.
  The code does not do this for a text that the tokenizer refuses to encode. The theorem
  evaluates the code on the result value \<^verbatim>\<open>a <|endoftext|> b\<close>, for a library that throws
  \<open>e\<close> on texts with this special token: the first call of \<^verbatim>\<open>encode\<close> in
  \<^verbatim>\<open>createResponse\<close> throws, no content unit is built, and the caller of \<open>runTool\<close>
  receives the error that \<^verbatim>\<open>handleError\<close> makes of \<open>e\<close>.
\<close>

theorem createResponse_special_token_text:
  "createResponse rt tk (special_token_throws e) MAX_TOKENS name (JString ''a <|endoftext|> b'') =
     Inl (Untyped e) \<and>
   runTool rt tk (special_token_throws e) MAX_TOKENS name (Inr (JString ''a <|endoftext|> b'')) =
     handleError name (Untyped e) \<and>
   isl (runTool rt tk (special_token_throws e) MAX_TOKENS name (Inr (JString ''a <|endoftext|> b'')))"
proof -
  have normalised: "createResponse_text rt (JString ''a <|endoftext|> b'') = ''a <|endoftext|> b''"
    by (simp add: createResponse_text_def)
  have "special_token_throws e (createResponse_text rt (JString ''a <|endoftext|> b'')) = Some e"
    by (simp only: normalised special_token_throws_def sublist_endoftext if_True)
  then have thrown: "createResponse rt tk (special_token_throws e) MAX_TOKENS name
      (JString ''a <|endoftext|> b'') = Inl (Untyped e)"
    by (rule createResponse_encode_throws)
  then have run: "runTool rt tk (special_token_throws e) MAX_TOKENS name
      (Inr (JString ''a <|endoftext|> b'')) = handleError name (Untyped e)"
    by (simp add: runTool_def)
  have "isl (handleError name (Untyped e) :: ObsidianError + debug_entry list \<times> TextContent list)"
    by (cases "(name, Untyped e)" rule: handleError.cases) simp_all
  with thrown run show ?thesis
    by simp
qed

section \<open>Error handling\<close>

text \<open>
  Claim C8. For every value raised inside a handler's operation: an \<^verbatim>\<open>ObsidianError\<close>
  is thrown again as it is; a plain \<^verbatim>\<open>Error\<close> is wrapped into an \<^verbatim>\<open>ObsidianError\<close> with
  code 500 whose message names the tool and repeats the original message and whose
  details hold the original stack under \<^verbatim>\<open>originalError\<close> (the stack string itself, or
  \<^verbatim>\<open>undefined\<close> for an \<^verbatim>\<open>Error\<close> without one); any other value is wrapped into an
  \<^verbatim>\<open>ObsidianError\<close> with code 500 whose message names the tool and whose details hold the
  raw value under \<^verbatim>\<open>error\<close>. The error path never returns normally, and it is the outcome
  of \<open>runTool\<close> whenever the awaited operation or the response builder throws.
\<close>

theorem handleError_policy:
  "(handleError name (Typed e) :: ObsidianError + 'a) = Inl e \<and>
   (handleError name (Untyped (JError msg (Some st))) :: ObsidianError + 'a) =
     Inl \<lparr>message = ''Tool '' @ [CHR 0x27] @ name @ [CHR 0x27] @ '' execution failed: '' @ msg,
          errorCode = 500,
          details = JObject [(''originalError'', JString st)]\<rparr> \<and>
   (handleError name (Untyped (JError msg None)) :: ObsidianError + 'a) =
     Inl \<lparr>message = ''Tool '' @ [CHR 0x27] @ name @ [CHR 0x27] @ '' execution failed: '' @ msg,
          errorCode = 500,
          details = JObject [(''originalError'', JUndefined)]\<rparr> \<and>
   (\<not> instanceof_Error v \<longrightarrow>
      (handleError name (Untyped v) :: ObsidianError + 'a) =
        Inl \<lparr>message = ''Tool '' @ [CHR 0x27] @ name @ [CHR 0x27] @
                      '' execution failed with unknown error'',
             errorCode = 500,
             details = JObject [(''error'', v)]\<rparr>) \<and>
   isl (handleError name error :: ObsidianError + 'a) \<and>
   runTool rt tk encode_throws MAX_TOKENS name (Inl error) = handleError name error \<and>
   (createResponse rt tk encode_throws MAX_TOKENS name content = Inl error \<longrightarrow>
      runTool rt tk encode_throws MAX_TOKENS name (Inr content) = handleError name error)"
proof -
  have never: "isl (handleError name error :: ObsidianError + 'a)"
    by (cases "(name, error)" rule: handleError.cases) simp_all
  have unknown: "(handleError name (Untyped v) :: ObsidianError + 'a) =
        Inl \<lparr>message = ''Tool '' @ [CHR 0x27] @ name @ [CHR 0x27] @
                      '' execution failed with unknown error'',
             errorCode = 500,
             details = JObject [(''error'', v)]\<rparr>" if "\<not> instanceof_Error v"
    using that by (cases v) simp_all
  have typed: "(handleError name (Typed e) :: ObsidianError + 'a) = Inl e"
    by simp
  have with_stack: "(handleError name (Untyped (JError msg (Some st))) :: ObsidianError + 'a) =
     Inl \<lparr>message = ''Tool '' @ [CHR 0x27] @ name @ [CHR 0x27] @ '' execution failed: '' @ msg,
          errorCode = 500,
          details = JObject [(''originalError'', JString st)]\<rparr>"
    by simp
  have without_stack: "(handleError name (Untyped (JError msg None)) :: ObsidianError + 'a) =
     Inl \<lparr>message = ''Tool '' @ [CHR 0x27] @ name @ [CHR 0x27] @ '' execution failed: '' @ msg,
          errorCode = 500,
          details = JObject [(''originalError'', JUndefined)]\<rparr>"
    by simp
  have op: "runTool rt tk encode_throws MAX_TOKENS name (Inl error) = handleError name error"
    by (simp add: runTool_def)
  have builder: "runTool rt tk encode_throws MAX_TOKENS name (Inr content) = handleError name error"
    if "createResponse rt tk encode_throws MAX_TOKENS name content = Inl error"
    using that by (simp add: runTool_def)
  from typed with_stack without_stack unknown never op builder show ?thesis
    by blast
qed

theorem handleError_policy_witness:
  "\<not> instanceof_Error (JString ''boom'') \<and>
   (handleError ''obsidian_get_properties'' (Untyped (JString ''boom'')) :: ObsidianError + unit) =
     Inl \<lparr>message = ''Tool '' @ [CHR 0x27] @ ''obsidian_get_properties'' @ [CHR 0x27] @
                   '' execution failed with unknown error'',
          errorCode = 500,
          details = JObject [(''error'', JString ''boom'')]\<rparr> \<and>
   (handleError ''obsidian_get_properties''
      (Untyped (JError ''connect ECONNREFUSED'' (Some ''Error: connect ECONNREFUSED at connect'')))
      :: ObsidianError + unit) =
     Inl \<lparr>message = ''Tool '' @ [CHR 0x27] @ ''obsidian_get_properties'' @ [CHR 0x27] @
                   '' execution failed: connect ECONNREFUSED'',
          errorCode = 500,
          details = JObject [(''originalError'',
                              JString ''Error: connect ECONNREFUSED at connect'')]\<rparr> \<and>
   createResponse sample_runtime char_tokenizer
       (special_token_throws (JError ''refused'' (Some ''Error: refused at encode''))) 20000
       ''obsidian_get_file_contents'' (JString ''a <|endoftext|> b'') =
     Inl (Untyped (JError ''refused'' (Some ''Error: refused at encode''))) \<and>
   runTool sample_runtime char_tokenizer
       (special_token_throws (JError ''refused'' (Some ''Error: refused at encode''))) 20000
       ''obsidian_get_file_contents'' (Inr (JString ''a <|endoftext|> b'')) =
     Inl \<lparr>message = ''Tool '' @ [CHR 0x27] @ ''obsidian_get_file_contents'' @ [CHR 0x27] @
                   '' execution failed: refused'',
          errorCode = 500,
          details = JObject [(''originalError'', JString ''Error: refused at encode'')]\<rparr>"
proof -
  let ?e = "JError ''refused'' (Some ''Error: refused at encode'')"
  let ?name = "''obsidian_get_file_contents''"
  note th = handleError_policy [where 'a = unit, of "''obsidian_get_properties''" _
      "''connect ECONNREFUSED''" "''Error: connect ECONNREFUSED at connect''" "JString ''boom''"]
  have h: "\<not> instanceof_Error (JString ''boom'')"
    by simp
  from th h
  have unknown: "(handleError ''obsidian_get_properties'' (Untyped (JString ''boom'')) :: ObsidianError + unit) =
     Inl \<lparr>message = ''Tool '' @ [CHR 0x27] @ ''obsidian_get_properties'' @ [CHR 0x27] @
                   '' execution failed with unknown error'',
          errorCode = 500,
          details = JObject [(''error'', JString ''boom'')]\<rparr>"
    by blast
  from th
  have plain: "(handleError ''obsidian_get_properties''
      (Untyped (JError ''connect ECONNREFUSED'' (Some ''Error: connect ECONNREFUSED at connect'')))
      :: ObsidianError + unit) =
     Inl \<lparr>message = ''Tool '' @ [CHR 0x27] @ ''obsidian_get_properties'' @ [CHR 0x27] @
                   '' execution failed: '' @ ''connect ECONNREFUSED'',
          errorCode = 500,
          details = JObject [(''originalError'',
                              JString ''Error: connect ECONNREFUSED at connect'')]\<rparr>"
    by blast
  have normalised: "createResponse_text sample_runtime (JString ''a <|endoftext|> b'') = ''a <|endoftext|> b''"
    by (simp add: createResponse_text_def)
  have "special_token_throws ?e (createResponse_text sample_runtime (JString ''a <|endoftext|> b''))
      = Some ?e"
    by (simp only: normalised special_token_throws_def sublist_endoftext if_True)
  then have thrown: "createResponse sample_runtime char_tokenizer (special_token_throws ?e) 20000 ?name
      (JString ''a <|endoftext|> b'') = Inl (Untyped ?e)"
    by (rule createResponse_encode_throws)
  from handleError_policy [where name = ?name and rt = sample_runtime and tk = char_tokenizer
      and encode_throws = "special_token_throws ?e" and MAX_TOKENS = 20000
      and content = "JString ''a <|endoftext|> b''" and error = "Untyped ?e"] thrown
  have "runTool sample_runtime char_tokenizer (special_token_throws ?e) 20000 ?name
      (Inr (JString ''a <|endoftext|> b'')) = handleError ?name (Untyped ?e)"
    by blast
  then have caught: "runTool sample_runtime char_tokenizer (special_token_throws ?e) 20000 ?name
      (Inr (JString ''a <|endoftext|> b'')) =
     Inl \<lparr>message = ''Tool '' @ [CHR 0x27] @ ?name @ [CHR 0x27] @ '' execution failed: refused'',
          errorCode = 500,
          details = JObject [(''originalError'', JString ''Error: refused at encode'')]\<rparr>"
    by simp
  have plain': "(handleError ''obsidian_get_properties''
      (Untyped (JError ''connect ECONNREFUSED'' (Some ''Error: connect ECONNREFUSED at connect'')))
      :: ObsidianError + unit) =
     Inl \<lparr>message = ''Tool '' @ [CHR 0x27] @ ''obsidian_get_properties'' @ [CHR 0x27] @
                   '' execution failed: connect ECONNREFUSED'',
          errorCode = 500,
          details = JObject [(''originalError'',
                              JString ''Error: connect ECONNREFUSED at connect'')]\<rparr>"
    using plain by simp
  from h unknown plain' thrown caught show ?thesis
    by (intro conjI)
qed

section \<open>The lifecycle invariant\<close>

lemma lifecycle_inv_process0: "lifecycle_inv process0"
  by (simp add: lifecycle_inv_def process0_def)

lemma process_on_fields [simp]:
  "acquired (process_on ev l p) = acquired p"
  "freed (process_on ev l p) = freed p"
  "objects (process_on ev l p) = objects p"
  by (simp_all add: process_on_def)

lemma process_off_fields [simp]:
  "acquired (process_off ev l p) = acquired p"
  "freed (process_off ev l p) = freed p"
  "objects (process_off ev l p) = objects p"
  by (simp_all add: process_off_def)

lemma removeListeners_fields [simp]:
  "acquired (TokenCounter_removeListeners this p) = acquired p"
  "freed (TokenCounter_removeListeners this p) = freed p"
  "objects (TokenCounter_removeListeners this p) = objects p"
  by (simp_all add: TokenCounter_removeListeners_def Let_def)

lemma lifecycle_inv_cong:
  "acquired q = acquired p \<Longrightarrow> freed q = freed p \<Longrightarrow> objects q = objects p \<Longrightarrow>
   lifecycle_inv q = lifecycle_inv p"
  by (simp add: lifecycle_inv_def)

lemma new_TokenCounter_fields:
  "acquired (snd (new_TokenCounter p)) = Suc (acquired p)"
  "freed (snd (new_TokenCounter p)) = freed p"
  "objects (snd (new_TokenCounter p)) =
     objects p @ [\<lparr>owner = TokenCounter_object, tokenizer = Some (acquired p), isShuttingDown = False\<rparr>]"
  by (simp_all add: new_TokenCounter_def encoding_for_model_def Let_def)

lemma new_BaseToolHandler_fields:
  "acquired (snd (new_BaseToolHandler name p)) = Suc (acquired p)"
  "freed (snd (new_BaseToolHandler name p)) = freed p"
  "objects (snd (new_BaseToolHandler name p)) =
     objects p @ [\<lparr>owner = BaseToolHandler_object name, tokenizer = Some (acquired p), isShuttingDown = False\<rparr>]"
  by (simp_all add: new_BaseToolHandler_def encoding_for_model_def Let_def)

lemma lifecycle_inv_append:
  assumes inv: "lifecycle_inv p"
    and a: "acquired q = Suc (acquired p)"
    and f: "freed q = freed p"
    and ob: "objects q = objects p @ [\<lparr>owner = w, tokenizer = Some (acquired p), isShuttingDown = False\<rparr>]"
  shows "lifecycle_inv q"
proof -
  from inv have len: "length (objects p) = acquired p"
    and old: "\<And>r. r < acquired p \<Longrightarrow> tokenizer (objects p ! r) = Some r \<and>
        count_list (freed p) r = (if isShuttingDown (objects p ! r) then 1 else 0)"
    and fr: "\<And>h. h \<in> set (freed p) \<Longrightarrow> h < acquired p"
    by (auto simp: lifecycle_inv_def)
  have fresh: "count_list (freed p) (acquired p) = 0"
    using fr by (auto simp: count_list_0_iff)
  have "tokenizer (objects q ! r) = Some r \<and>
        count_list (freed q) r = (if isShuttingDown (objects q ! r) then 1 else 0)"
    if "r < Suc (acquired p)" for r
  proof (cases "r < acquired p")
    case True
    with old [OF True] len show ?thesis by (simp add: ob f nth_append)
  next
    case False
    with that have "r = acquired p" by simp
    with len fresh show ?thesis by (simp add: ob f nth_append)
  qed
  moreover have "h < Suc (acquired p)" if "h \<in> set (freed q)" for h
    using that fr [of h] by (simp add: f less_Suc_eq)
  ultimately show ?thesis
    using len by (simp add: lifecycle_inv_def a ob)
qed

lemma lifecycle_inv_new_TokenCounter:
  "lifecycle_inv p \<Longrightarrow> lifecycle_inv (snd (new_TokenCounter p))"
  by (rule lifecycle_inv_append [OF _ new_TokenCounter_fields])

lemma lifecycle_inv_new_BaseToolHandler:
  "lifecycle_inv p \<Longrightarrow> lifecycle_inv (snd (new_BaseToolHandler name p))"
  by (rule lifecycle_inv_append [OF _ new_BaseToolHandler_fields])

lemma lifecycle_inv_shut_down:
  assumes inv: "lifecycle_inv p"
    and r: "this < length (objects p)"
    and live: "\<not> isShuttingDown (objects p ! this)"
  shows "lifecycle_inv
           (case tokenizer (objects p ! this) of
              Some h \<Rightarrow> tokenizer_free h (p\<lparr>objects := (objects p)[this := (objects p ! this)\<lparr>isShuttingDown := True\<rparr>]\<rparr>)
            | None \<Rightarrow> p\<lparr>objects := (objects p)[this := (objects p ! this)\<lparr>isShuttingDown := True\<rparr>]\<rparr>)"
proof -
  from inv have len: "length (objects p) = acquired p"
    and old: "\<And>r. r < acquired p \<Longrightarrow> tokenizer (objects p ! r) = Some r \<and>
        count_list (freed p) r = (if isShuttingDown (objects p ! r) then 1 else 0)"
    and fr: "\<And>h. h \<in> set (freed p) \<Longrightarrow> h < acquired p"
    by (auto simp: lifecycle_inv_def)
  from r len have this_lt: "this < acquired p" by simp
  from old [OF this_lt] live have tok: "tokenizer (objects p ! this) = Some this"
    and zero: "count_list (freed p) this = 0" by simp_all
  show ?thesis
    using len old fr this_lt zero r
    by (auto simp: tok lifecycle_inv_def tokenizer_free_def nth_list_update)
qed

lemma lifecycle_inv_cleanupListener:
  "lifecycle_inv p \<Longrightarrow> lifecycle_inv (TokenCounter_cleanupListener this p)"
  unfolding TokenCounter_cleanupListener_def Let_def
  using lifecycle_inv_shut_down [of p this]
  by (simp add: lifecycle_inv_cong [of "TokenCounter_removeListeners this q" q for q])

lemma lifecycle_inv_BaseToolHandler_cleanup:
  "lifecycle_inv p \<Longrightarrow> lifecycle_inv (BaseToolHandler_cleanup this p)"
  unfolding BaseToolHandler_cleanup_def Let_def
  using lifecycle_inv_shut_down [of p this]
  by simp

lemma lifecycle_inv_call_listener:
  "lifecycle_inv p \<Longrightarrow> lifecycle_inv (call_listener l p)"
  by (cases l) (simp_all add: lifecycle_inv_cleanupListener lifecycle_inv_BaseToolHandler_cleanup)

lemma lifecycle_inv_fold_call:
  "lifecycle_inv p \<Longrightarrow> lifecycle_inv (fold call_listener ls p)"
  by (induction ls arbitrary: p) (simp_all add: lifecycle_inv_call_listener)

lemma lifecycle_inv_emit: "lifecycle_inv p \<Longrightarrow> lifecycle_inv (emit ev p)"
  by (simp add: emit_def lifecycle_inv_fold_call)

lemma lifecycle_inv_step: "lifecycle_inv p \<Longrightarrow> lifecycle_inv (step a p)"
  by (cases a)
     (simp_all add: lifecycle_inv_new_TokenCounter lifecycle_inv_new_BaseToolHandler
        lifecycle_inv_emit TokenCounter_cleanup_def lifecycle_inv_cleanupListener)

lemma lifecycle_inv_run: "lifecycle_inv p \<Longrightarrow> lifecycle_inv (run acts p)"
  unfolding run_def by (induction acts arbitrary: p) (simp_all add: lifecycle_inv_step)

lemma lifecycle_inv_freed_once: "lifecycle_inv p \<Longrightarrow> count_list (freed p) h \<le> 1"
proof (cases "h < acquired p")
  case True
  assume "lifecycle_inv p"
  with True show ?thesis by (simp add: lifecycle_inv_def)
next
  case False
  assume "lifecycle_inv p"
  with False have "h \<notin> set (freed p)" by (auto simp: lifecycle_inv_def)
  then show ?thesis by (simp add: count_list_0_iff)
qed

lemma cleanupListener_noop:
  "\<not> (this < length (objects q) \<and> \<not> isShuttingDown (objects q ! this)) \<Longrightarrow>
   TokenCounter_cleanupListener this q = q"
  by (auto simp: TokenCounter_cleanupListener_def Let_def)

lemma cleanupListener_objects:
  "this < length (objects p) \<Longrightarrow> \<not> isShuttingDown (objects p ! this) \<Longrightarrow>
   objects (TokenCounter_cleanupListener this p) =
     (objects p)[this := (objects p ! this)\<lparr>isShuttingDown := True\<rparr>]"
  by (simp add: TokenCounter_cleanupListener_def Let_def tokenizer_free_def split: option.splits)

lemma cleanupListener_idem:
  "TokenCounter_cleanupListener this (TokenCounter_cleanupListener this p) =
     TokenCounter_cleanupListener this p"
proof (cases "this < length (objects p) \<and> \<not> isShuttingDown (objects p ! this)")
  case True
  then have "objects (TokenCounter_cleanupListener this p) =
      (objects p)[this := (objects p ! this)\<lparr>isShuttingDown := True\<rparr>]"
    by (simp add: cleanupListener_objects)
  with True have "\<not> (this < length (objects (TokenCounter_cleanupListener this p)) \<and>
      \<not> isShuttingDown (objects (TokenCounter_cleanupListener this p) ! this))"
    by simp
  then show ?thesis by (rule cleanupListener_noop)
next
  case False
  then have "TokenCounter_cleanupListener this p = p" by (rule cleanupListener_noop)
  then show ?thesis by simp
qed

lemma acquired_step: "acquired (step a p) = acquired p + (if constructs a then 1 else 0)"
proof -
  have cl: "acquired (TokenCounter_cleanupListener this q) = acquired q" for this q
    by (simp add: TokenCounter_cleanupListener_def Let_def tokenizer_free_def split: option.splits)
  have bc: "acquired (BaseToolHandler_cleanup this q) = acquired q" for this q
    by (simp add: BaseToolHandler_cleanup_def Let_def tokenizer_free_def split: option.splits)
  have call: "acquired (call_listener l q) = acquired q" for l q
    by (cases l) (simp_all add: cl bc)
  have fold_call: "acquired (fold call_listener ls q) = acquired q" for ls q
    by (induction ls arbitrary: q) (simp_all add: call)
  show ?thesis
    by (cases a)
       (simp_all add: new_TokenCounter_fields new_BaseToolHandler_fields emit_def fold_call
          TokenCounter_cleanup_def cl)
qed

lemma acquired_run: "acquired (run acts p) = acquired p + length (filter constructs acts)"
  unfolding run_def by (induction acts arbitrary: p) (simp_all add: acquired_step)

lemma lifecycle_inv_tokenizers:
  assumes "lifecycle_inv p"
  shows "map tokenizer (objects p) = map Some [0..<acquired p]"
proof (rule nth_equalityI)
  from assms show "length (map tokenizer (objects p)) = length (map Some [0..<acquired p])"
    by (simp add: lifecycle_inv_def)
next
  fix i
  assume "i < length (map tokenizer (objects p))"
  with assms show "map tokenizer (objects p) ! i = map Some [0..<acquired p] ! i"
    by (simp add: lifecycle_inv_def)
qed

section \<open>Release of the tokenizer\<close>

text \<open>
  Claim C5. Whatever happens in the process, in whatever order (objects constructed, the
  events exit, SIGINT, SIGTERM and uncaughtException emitted, \<^verbatim>\<open>cleanup()\<close> called), the
  \<^verbatim>\<open>free()\<close> of each tokenizer is executed at most once; and a second invocation of the
  cleanup listener of a \<^verbatim>\<open>TokenCounter\<close>, directly or through \<^verbatim>\<open>cleanup()\<close>, changes
  nothing.
\<close>

theorem tokenizer_freed_at_most_once:
  "count_list (freed (run acts process0)) h \<le> 1 \<and>
   TokenCounter_cleanupListener this (TokenCounter_cleanupListener this p) =
     TokenCounter_cleanupListener this p \<and>
   TokenCounter_cleanup this (TokenCounter_cleanup this p) = TokenCounter_cleanup this p"
proof -
  have "lifecycle_inv (run acts process0)"
    by (rule lifecycle_inv_run [OF lifecycle_inv_process0])
  then have "count_list (freed (run acts process0)) h \<le> 1"
    by (rule lifecycle_inv_freed_once)
  then show ?thesis
    by (simp add: TokenCounter_cleanup_def cleanupListener_idem)
qed

lemma cleanup_frees_example:
  "freed (run [New_TokenCounter, Emit SIGINT, Call_cleanup 0, Emit Exit, Emit UncaughtException]
            process0) = [0]"
  by (simp add: run_def process0_def new_TokenCounter_def encoding_for_model_def process_on_def
      process_off_def emit_def TokenCounter_cleanup_def TokenCounter_cleanupListener_def
      TokenCounter_removeListeners_def tokenizer_free_def Let_def)

section \<open>Acquisition of the tokenizer\<close>

text \<open>
  Every object acquires a tokenizer of its own in its constructor. A process that has
  loaded the tokenization module (which constructs the singleton \<^verbatim>\<open>tokenCounter\<close>) and
  constructed the two property handlers has acquired three tokenizers, before any call
  of \<^verbatim>\<open>countTokens\<close> or \<^verbatim>\<open>truncateToTokenLimit\<close>.
\<close>

theorem tokenizer_acquired_once_counterexample:
  "\<not> acquired
        (run [New_TokenCounter, New_BaseToolHandler ''obsidian_get_properties'',
              New_BaseToolHandler ''obsidian_update_properties''] process0) \<le> 1"
  by (simp add: acquired_run process0_def)

text \<open>
  Claim C6, as amended. Every \<^verbatim>\<open>TokenCounter\<close> and every \<^verbatim>\<open>BaseToolHandler\<close> acquires
  its own tokenizer when it is constructed, once per object; calls of \<^verbatim>\<open>countTokens\<close>
  and \<^verbatim>\<open>truncateToTokenLimit\<close>, events and \<^verbatim>\<open>cleanup()\<close> acquire none. So after any run
  of the process the number of tokenizers acquired is the number of objects constructed,
  and the objects hold pairwise different tokenizers, in order of construction.
\<close>

theorem tokenizer_acquired_per_instance:
  "acquired (run acts process0) = length (filter constructs acts) \<and>
   map tokenizer (objects (run acts process0)) = map Some [0..<length (filter constructs acts)]"
proof -
  have n: "acquired (run acts process0) = length (filter constructs acts)"
    by (simp add: acquired_run process0_def)
  have "lifecycle_inv (run acts process0)"
    by (rule lifecycle_inv_run [OF lifecycle_inv_process0])
  then have "map tokenizer (objects (run acts process0)) = map Some [0..<acquired (run acts process0)]"
    by (rule lifecycle_inv_tokenizers)
  with n show ?thesis by simp
qed

section \<open>The write-once field of the property set\<close>

lemma merge_array_example:
  "merge_array [''#a'', ''#b''] (Some [''#b'', ''#c'']) = [''#a'', ''#b'', ''#c'']"
  by (simp add: merge_array_def insert_if_absent_def)

lemma getProperties_Inr:
  "getProperties acc v path = Inr existing \<longleftrightarrow>
     (\<exists>body raw. v path = Some (body, raw) \<and> parse_frontmatter acc raw = Some existing)"
  by (auto simp: getProperties_def split: option.splits)

text \<open>
  Claim C3. For a note whose existing PropertySet is \<open>existing\<close> and any partial update,
  also one that supplies a different \<open>created\<close>: after a successful \<open>updateProperties\<close>
  the PropertySet that was written has the \<open>created\<close> of \<open>existing\<close> whenever
  \<open>existing\<close> has one, and the \<open>created\<close> of the update only when \<open>existing\<close> has
  none. What was written is the merged set, serialised in front of the unchanged body.
\<close>

theorem created_is_write_once:
  assumes got: "getProperties acc v path = Inr existing"
    and upd: "updateProperties acc now v path incoming = Inr (merged, v')"
  shows "(created existing \<noteq> None \<longrightarrow> created merged = created existing) \<and>
         (created existing = None \<longrightarrow> created merged = upd_created incoming) \<and>
         (\<exists>body raw. v path = Some (body, raw) \<and>
            v' = v(path \<mapsto> (body, serialize_frontmatter acc merged)))"
proof -
  from got obtain body raw where doc: "v path = Some (body, raw)"
    and parsed: "parse_frontmatter acc raw = Some existing"
    by (auto simp: getProperties_Inr)
  from upd doc parsed have m: "merged = merge_properties now existing incoming"
    and w: "v' = v(path \<mapsto> (body, serialize_frontmatter acc merged))"
    by (auto simp: updateProperties_def Let_def split: if_splits)
  from m have "created merged = merge_created (created existing) (upd_created incoming)"
    by (simp add: merge_properties_def)
  then have "(created existing \<noteq> None \<longrightarrow> created merged = created existing) \<and>
         (created existing = None \<longrightarrow> created merged = upd_created incoming)"
    by (auto simp: merge_created_def)
  with doc w show ?thesis by blast
qed

theorem created_is_write_once_witness:
  "getProperties sample_accessor sample_vault ''note.md'' = Inr sample_properties \<and>
   updateProperties sample_accessor 2000 sample_vault ''note.md'' sample_update =
     Inr (merge_properties 2000 sample_properties sample_update,
          sample_vault(''note.md'' \<mapsto> (''body'', []))) \<and>
   created sample_properties = Some 100 \<and>
   upd_created sample_update = Some 999 \<and>
   created (merge_properties 2000 sample_properties sample_update) = Some 100"
proof -
  have got: "getProperties sample_accessor sample_vault ''note.md'' = Inr sample_properties"
    by (simp add: getProperties_def sample_accessor_def sample_vault_def)
  have tags: "tags (merge_properties 2000 sample_properties sample_update) = [''#a'']"
    by (simp add: merge_properties_def merge_array_def insert_if_absent_def
        sample_properties_def sample_update_def)
  have valid: "validate_properties (\<lambda>s. True) (merge_properties 2000 sample_properties sample_update) = []"
    by (simp add: validate_properties_def tags starts_with_hash_def)
       (simp add: merge_properties_def merge_array_def merge_scalar_def
          sample_properties_def sample_update_def)
  have upd: "updateProperties sample_accessor 2000 sample_vault ''note.md'' sample_update =
     Inr (merge_properties 2000 sample_properties sample_update,
          sample_vault(''note.md'' \<mapsto> (''body'', [])))"
  proof -
    have doc: "sample_vault ''note.md'' = Some (''body'', ''created: 100'')"
      by (simp add: sample_vault_def)
    have parsed: "parse_frontmatter sample_accessor ''created: 100'' = Some sample_properties"
      by (simp add: sample_accessor_def)
    have uri: "is_uri sample_accessor = (\<lambda>s. True)"
      by (simp add: sample_accessor_def)
    have writable: "\<not> write_fails sample_accessor ''note.md''"
      by (simp add: sample_accessor_def)
    have ser: "serialize_frontmatter sample_accessor m = []" for m
      by (simp add: sample_accessor_def)
    show ?thesis
      by (simp add: updateProperties_def Let_def doc parsed uri writable ser valid)
  qed
  have c: "created sample_properties = Some 100"
    by (simp add: sample_properties_def)
  have u: "upd_created sample_update = Some 999"
    by (simp add: sample_update_def)
  from created_is_write_once [OF got upd] c
  have "created (merge_properties 2000 sample_properties sample_update) = Some 100"
    by simp
  with got upd c u show ?thesis
    by (intro conjI)
qed

end
